theory Spec2Isabelle
  imports Complex_Main "HOL-Library.Word"
begin

unbundle bit_operations_syntax

section \<open>The mock Sys AI Box server: device pairing store\<close>

text \<open>
  The embedding follows \<^verbatim>\<open>scripts/mock-sysaibox/server.py\<close>. The module-level
  dictionary \<^verbatim>\<open>device_codes\<close> is the only state. Every route handler is a function
  from the store (and the request's inputs) to a response and the store afterwards.
  The two sources of nondeterminism, \<^verbatim>\<open>uuid.uuid4()\<close> and \<^verbatim>\<open>time.time()\<close>, are
  inputs of the handlers that call them.
\<close>

subsection \<open>Strings\<close>

text \<open>
  A Python \<^verbatim>\<open>str\<close> is the list of the bytes of its UTF-8 encoding: for ASCII text
  these are its characters, and two strings are equal exactly when their encodings
  are. A string is ASCII when no byte has its top bit set.
\<close>

definition is_ascii :: "string \<Rightarrow> bool" where
  "is_ascii s \<longleftrightarrow> list_all (\<lambda>c. \<not> digit7 c) s"

text \<open>On one ASCII character: the letters a to z move to A to Z, every other stays.\<close>

definition upper_char :: "char \<Rightarrow> char" where
  "upper_char c =
     (case map_of (zip ''abcdefghijklmnopqrstuvwxyz'' ''ABCDEFGHIJKLMNOPQRSTUVWXYZ'') c of
        Some C \<Rightarrow> C
      | None \<Rightarrow> c)"

text \<open>
  \<^verbatim>\<open>str.upper\<close>. On ASCII text it maps character by character as above. On any other
  text it applies Unicode's case mapping (under which, for one, the long s U+017F
  becomes \<^verbatim>\<open>S\<close>); that table is no part of the source, so it is the parameter
  \<open>unicode_upper\<close>, and everything proved below holds for every such function.
\<close>

definition str_upper :: "(string \<Rightarrow> string) \<Rightarrow> string \<Rightarrow> string" where
  "str_upper unicode_upper s = (if is_ascii s then map upper_char s else unicode_upper s)"

subsection \<open>UUIDs\<close>

text \<open>
  A UUID is its 128-bit integer (\<^verbatim>\<open>UUID.int\<close>). \<^verbatim>\<open>UUID.hex\<close> is
  \<^verbatim>\<open>'%032x' % self.int\<close>: 32 lower-case hexadecimal digits, most significant first;
  \<^verbatim>\<open>str(UUID)\<close> groups them 8-4-4-4-12 with dashes.
\<close>

type_synonym uuid = "128 word"

definition hex_digit :: "nat \<Rightarrow> char" where
  "hex_digit d = ''0123456789abcdef'' ! (d mod 16)"

definition uuid_hex :: "uuid \<Rightarrow> string" where
  "uuid_hex u = map (\<lambda>i. hex_digit (unat (drop_bit (4 * (31 - i)) u AND 0xf))) [0..<32]"

definition uuid_str :: "uuid \<Rightarrow> string" where
  "uuid_str u =
     (let h = uuid_hex u
      in take 8 h @ ''-'' @ take 4 (drop 8 h) @ ''-'' @ take 4 (drop 12 h) @ ''-''
         @ take 4 (drop 16 h) @ ''-'' @ drop 20 h)"

text \<open>
  What \<^verbatim>\<open>uuid.uuid4()\<close> can return: version nibble 4 and the RFC 4122 variant
  bits \<open>10\<close>; the other 122 bits are random.
\<close>

definition is_uuid4 :: "uuid \<Rightarrow> bool" where
  "is_uuid4 u \<longleftrightarrow> drop_bit 76 u AND 0xf = 4 \<and> drop_bit 62 u AND 3 = 2"

subsection \<open>JSON request bodies\<close>

text \<open>
  What \<^verbatim>\<open>request.get_json()\<close> returns: a parsed JSON value, \<open>JNull\<close> standing for
  Python's \<^verbatim>\<open>None\<close>. An object is the list of its members as written; as in
  \<^verbatim>\<open>json.loads\<close>, the last member with a given name is the one the dict keeps.
\<close>

datatype json =
    JNull
  | JBool bool
  | JNum real
  | JStr string
  | JArr "json list"
  | JObj "(string \<times> json) list"

text \<open>Python's truth value of a parsed JSON value, as \<^verbatim>\<open>or\<close> tests it.\<close>

fun truthy :: "json \<Rightarrow> bool" where
  "truthy JNull = False"
| "truthy (JBool b) = b"
| "truthy (JNum x) = (x \<noteq> 0)"
| "truthy (JStr s) = (s \<noteq> [])"
| "truthy (JArr xs) = (xs \<noteq> [])"
| "truthy (JObj kvs) = (kvs \<noteq> [])"

text \<open>The exceptions a handler can raise; Flask answers them with HTTP 500.\<close>

datatype py_error = AttributeError | TypeError

text \<open>
  \<^verbatim>\<open>body.get(key)\<close>: only a dict has the method; a missing key gives \<^verbatim>\<open>None\<close>.
\<close>

fun body_get :: "json \<Rightarrow> string \<Rightarrow> py_error + json" where
  "body_get (JObj kvs) key = (case map_of (rev kvs) key of None \<Rightarrow> Inr JNull | Some v \<Rightarrow> Inr v)"
| "body_get _ key = Inl AttributeError"

subsection \<open>The store\<close>

text \<open>
  The status strings of the source: \<^verbatim>\<open>'pending'\<close>, \<^verbatim>\<open>'authorized'\<close>,
  \<^verbatim>\<open>'expired'\<close>. No other status string occurs in it.
\<close>

datatype status = Pending | Authorized | Expired

text \<open>
  One value of \<^verbatim>\<open>device_codes\<close>. \<^verbatim>\<open>created\<close> is the float \<^verbatim>\<open>time.time()\<close>,
  read as the real number of seconds it stands for.
\<close>

record pairing =
  user_code :: string
  status :: status
  created :: real
  expires_in :: int

text \<open>
  A Python dict keeps insertion order and iterates in it: the store is the list of
  its items. Assigning to a new key appends, assigning to a present key replaces
  the value where it stands.
\<close>

type_synonym store = "(string \<times> pairing) list"

fun dict_set :: "('k \<times> 'v) list \<Rightarrow> 'k \<Rightarrow> 'v \<Rightarrow> ('k \<times> 'v) list" where
  "dict_set [] k v = [(k, v)]"
| "dict_set ((k', v') # kvs) k v =
     (if k' = k then (k, v) # kvs else (k', v') # dict_set kvs k v)"

definition dict_contains :: "('k \<times> 'v) list \<Rightarrow> 'k \<Rightarrow> bool" where
  "dict_contains d k \<longleftrightarrow> k \<in> fst ` set d"

text \<open>
  \<^verbatim>\<open>device_code in device_codes\<close> followed by \<^verbatim>\<open>device_codes[device_code]\<close>, for
  a parsed JSON value: a list or a dict cannot be hashed and the test raises
  \<^verbatim>\<open>TypeError\<close>; \<^verbatim>\<open>None\<close>, a boolean and a number can be hashed but equal no key,
  the keys being strings; a string is looked up.
\<close>

fun store_find :: "store \<Rightarrow> json \<Rightarrow> py_error + pairing option" where
  "store_find device_codes (JStr device_code) = Inr (map_of device_codes device_code)"
| "store_find device_codes (JArr xs) = Inl TypeError"
| "store_find device_codes (JObj kvs) = Inl TypeError"
| "store_find device_codes _ = Inr None"

subsection \<open>The handlers\<close>

text \<open>
  \<^verbatim>\<open>approve\<close>: the loop over \<^verbatim>\<open>device_codes.items()\<close>. At the first item whose
  \<^verbatim>\<open>user_code\<close> equals the code, \<^verbatim>\<open>device_codes[device_code]\<close> (the very dict
  \<^verbatim>\<open>data\<close> of that item) gets status \<^verbatim>\<open>'authorized'\<close> and the function returns;
  \<open>None\<close> is falling off the end of the loop.
\<close>

fun approve_loop :: "store \<Rightarrow> string \<Rightarrow> store option" where
  "approve_loop [] code = None"
| "approve_loop ((device_code, data) # items) code =
     (if user_code data = code
      then Some ((device_code, data\<lparr>status := Authorized\<rparr>) # items)
      else map_option ((#) (device_code, data)) (approve_loop items code))"

text \<open>The two pages of \<^verbatim>\<open>approve\<close>, each showing the upper-cased code.\<close>

datatype approve_page = DeviceAuthorized string | CodeNotFound string

definition approve ::
  "(string \<Rightarrow> string) \<Rightarrow> store \<Rightarrow> string option \<Rightarrow> approve_page \<times> store" where
  "approve up device_codes arg =
     (let code = str_upper up (case arg of None \<Rightarrow> [] | Some c \<Rightarrow> c)
      in case approve_loop device_codes code of
           Some device_codes' \<Rightarrow> (DeviceAuthorized code, device_codes')
         | None \<Rightarrow> (CodeNotFound code, device_codes))"

record start_response =
  r_device_code :: string
  r_user_code :: string
  r_verification_uri :: string
  r_expires_in :: int
  r_interval :: int

text \<open>
  \<^verbatim>\<open>device_start\<close>: \<open>u1\<close> and \<open>u2\<close> are the two \<^verbatim>\<open>uuid4()\<close> draws in the order
  of the source, \<open>now\<close> is \<^verbatim>\<open>time.time()\<close>.
\<close>

definition device_start ::
  "(string \<Rightarrow> string) \<Rightarrow> store \<Rightarrow> real \<Rightarrow> uuid \<Rightarrow> uuid \<Rightarrow> start_response \<times> store" where
  "device_start up device_codes now u1 u2 =
     (let device_code = uuid_str u1;
          ucode = ''SWIFT-'' @ str_upper up (take 4 (uuid_hex u2))
      in (\<lparr>r_device_code = device_code, r_user_code = ucode,
            r_verification_uri = ''http://106.54.188.236:8080/console'',
            r_expires_in = 600, r_interval = 5\<rparr>,
          dict_set device_codes device_code
            \<lparr>user_code = ucode, status = Pending, created = now, expires_in = 600\<rparr>))"

text \<open>
  \<^verbatim>\<open>device_status\<close>: the query parameter is absent (\<open>None\<close>) or a string; the
  response body is \<^verbatim>\<open>{"status": ...}\<close> with HTTP status 200.
\<close>

definition device_status :: "store \<Rightarrow> real \<Rightarrow> string option \<Rightarrow> status \<times> store" where
  "device_status device_codes now arg =
     (case arg of
        None \<Rightarrow> (Pending, device_codes)
      | Some device_code \<Rightarrow>
          (case map_of device_codes device_code of
             Some data \<Rightarrow>
               if now - created data > real_of_int (expires_in data)
               then (Expired, device_codes)
               else (status data, device_codes)
           | None \<Rightarrow> (Pending, device_codes)))"

text \<open>
  \<^verbatim>\<open>device_token\<close>. The input \<open>got\<close> is what \<^verbatim>\<open>request.get_json()\<close> returned (a
  request for which that call itself raises never reaches the next line). A falsy
  value is replaced by the empty dict. The response is an exception raised on the way
  (\<open>Inl\<close>) or the HTTP status and the JSON body. \<open>u1\<close> and \<open>u2\<close> are the draws for
  the access and the refresh token.
\<close>

datatype token_body = Tokens string string int | Error string

definition device_token ::
  "store \<Rightarrow> json \<Rightarrow> uuid \<Rightarrow> uuid \<Rightarrow> (py_error + nat \<times> token_body) \<times> store" where
  "device_token device_codes got u1 u2 =
     (let body = (if truthy got then got else JObj [])
      in case body_get body ''device_code'' of
           Inl e \<Rightarrow> (Inl e, device_codes)
         | Inr device_code \<Rightarrow>
             (case store_find device_codes device_code of
                Inl e \<Rightarrow> (Inl e, device_codes)
              | Inr found \<Rightarrow>
                  if (case found of None \<Rightarrow> False | Some data \<Rightarrow> status data = Authorized)
                  then (Inr (200, Tokens (''access_'' @ uuid_hex u1)
                                         (''refresh_'' @ uuid_hex u2) 3600),
                        device_codes)
                  else (Inr (400, Error ''not_authorized''), device_codes)))"

subsection \<open>Requests and reachable stores\<close>

datatype request =
    Start real uuid uuid
  | Approve "string option"
  | Status real "string option"
  | Token json uuid uuid

fun handle :: "(string \<Rightarrow> string) \<Rightarrow> store \<Rightarrow> request \<Rightarrow> store" where
  "handle up s (Start now u1 u2) = snd (device_start up s now u1 u2)"
| "handle up s (Approve arg) = snd (approve up s arg)"
| "handle up s (Status now arg) = snd (device_status s now arg)"
| "handle up s (Token got u1 u2) = snd (device_token s got u1 u2)"

text \<open>The store after a sequence of requests, from the empty dict of module load.\<close>

definition run :: "(string \<Rightarrow> string) \<Rightarrow> request list \<Rightarrow> store" where
  "run up reqs = foldl (handle up) [] reqs"

subsection \<open>Predicates used in the statements\<close>

text \<open>An upper-case letter or a digit.\<close>

definition is_upper_alnum :: "char \<Rightarrow> bool" where
  "is_upper_alnum c \<longleftrightarrow> c \<in> set ''0123456789ABCDEFGHIJKLMNOPQRSTUVWXYZ''"

text \<open>The user codes of the stored records, in insertion order.\<close>

definition user_codes :: "store \<Rightarrow> string list" where
  "user_codes s = map (\<lambda>x. user_code (snd x)) s"

text \<open>
  What every store built by the handlers satisfies: the keys are those of a dict
  (no key twice), no stored status is \<^verbatim>\<open>'expired'\<close>, every \<^verbatim>\<open>expires_in\<close> is 600
  and every stored user code is ASCII text without lower-case letters.
\<close>

definition store_inv :: "store \<Rightarrow> bool" where
  "store_inv s \<longleftrightarrow>
     distinct (map fst s) \<and>
     (\<forall>x\<in>set s. status (snd x) \<noteq> Expired \<and> expires_in (snd x) = 600
        \<and> is_ascii (user_code (snd x))
        \<and> map upper_char (user_code (snd x)) = user_code (snd x))"

subsection \<open>Example inputs\<close>

text \<open>
  Four version-4 UUIDs used in the concrete runs below. \<open>uuid_b\<close> and \<open>uuid_d\<close>
  differ, but their first four hexadecimal digits agree.
\<close>

definition uuid_a :: uuid where "uuid_a = 0x123e4567e89b42d3a456426614174000"
definition uuid_b :: uuid where "uuid_b = 0xabcd456700004000800000000000000f"
definition uuid_c :: uuid where "uuid_c = 0x9f8b7c6d5e4f4a3b8c2d1e0f9a8b7c6d"
definition uuid_d :: uuid where "uuid_d = 0xabcd9999aaaa4bbb8ccc000000000001"

text \<open>
  A case mapping for the concrete runs: of the text beyond ASCII it knows only
  the code that is a long s (U+017F, in UTF-8 the bytes C5 BF) followed by
  \<^verbatim>\<open>wift-abcd\<close>, which it sends to \<^verbatim>\<open>SWIFT-ABCD\<close> as \<^verbatim>\<open>str.upper\<close> does.
\<close>

definition long_s_code :: string where
  "long_s_code = [CHR 0xC5, CHR 0xBF] @ ''wift-abcd''"

definition sample_upper :: "string \<Rightarrow> string" where
  "sample_upper s = (if s = long_s_code then ''SWIFT-ABCD'' else s)"

section \<open>Basic facts\<close>

lemma upper_char_idem: "upper_char (upper_char c) = upper_char c"
  by (simp add: upper_char_def)

lemma str_upper_ascii: "is_ascii s \<Longrightarrow> str_upper up s = map upper_char s"
  by (simp add: str_upper_def)

lemma hex_digit_cases: "hex_digit d \<in> set ''0123456789abcdef''"
proof -
  have "d mod 16 < length ''0123456789abcdef''" by simp
  then show ?thesis unfolding hex_digit_def by (rule nth_mem)
qed

lemma hex_digit_ascii: "\<not> digit7 (hex_digit d)"
  using hex_digit_cases [of d] by auto

lemma upper_hex_digit: "is_upper_alnum (upper_char (hex_digit d))"
  using hex_digit_cases [of d]
  by (auto simp: is_upper_alnum_def upper_char_def)

lemma upper_hex_digit_ascii: "\<not> digit7 (upper_char (hex_digit d))"
  using hex_digit_cases [of d]
  by (auto simp: upper_char_def)

lemma length_uuid_hex: "length (uuid_hex u) = 32"
  by (simp add: uuid_hex_def)

lemma uuid_hex_ascii: "is_ascii (uuid_hex u)"
  by (simp add: uuid_hex_def is_ascii_def list_all_iff hex_digit_ascii)

lemma is_ascii_take: "is_ascii s \<Longrightarrow> is_ascii (take n s)"
  by (auto simp: is_ascii_def list_all_iff dest: in_set_takeD)

lemma uuid_hex_alnum: "list_all (\<lambda>c. is_upper_alnum (upper_char c)) (uuid_hex u)"
  by (simp add: uuid_hex_def list_all_iff upper_hex_digit)

lemma uuid_hex_upper_ascii: "list_all (\<lambda>c. \<not> digit7 (upper_char c)) (uuid_hex u)"
  by (simp add: uuid_hex_def list_all_iff upper_hex_digit_ascii)

text \<open>The user code that \<^verbatim>\<open>device_start\<close> builds from its second draw.\<close>

lemma new_user_code:
  "''SWIFT-'' @ str_upper up (take 4 (uuid_hex u)) = ''SWIFT-'' @ map upper_char (take 4 (uuid_hex u))"
  by (simp add: str_upper_ascii is_ascii_take uuid_hex_ascii)

lemma new_user_code_ascii: "is_ascii (''SWIFT-'' @ map upper_char (take 4 (uuid_hex u)))"
  using uuid_hex_upper_ascii [of u]
  by (auto simp: is_ascii_def list_all_iff dest: in_set_takeD)

lemma new_user_code_upper:
  "map upper_char (''SWIFT-'' @ map upper_char (take 4 (uuid_hex u)))
     = ''SWIFT-'' @ map upper_char (take 4 (uuid_hex u))"
  by (simp add: upper_char_idem) (simp add: upper_char_def)

lemma map_fst_dict_set: "set (map fst (dict_set s k v)) = insert k (set (map fst s))"
  by (induction s k v rule: dict_set.induct) auto

lemma distinct_dict_set: "distinct (map fst s) \<Longrightarrow> distinct (map fst (dict_set s k v))"
proof (induction s k v rule: dict_set.induct)
  case (1 k v)
  then show ?case by simp
next
  case (2 k' v' kvs k v)
  then show ?case using map_fst_dict_set [of kvs k v] by auto
qed

lemma set_dict_set: "set (dict_set s k v) \<subseteq> insert (k, v) (set s)"
  by (induction s k v rule: dict_set.induct) auto


lemma dict_set_fresh: "k \<notin> fst ` set s \<Longrightarrow> dict_set s k v = s @ [(k, v)]"
  by (induction s k v rule: dict_set.induct) auto

lemma dict_set_present: "k \<in> fst ` set s \<Longrightarrow> map fst (dict_set s k v) = map fst s"
  by (induction s k v rule: dict_set.induct) auto

lemma map_of_dict_set: "map_of (dict_set s k v) = (map_of s)(k \<mapsto> v)"
  by (induction s k v rule: dict_set.induct) auto

lemma approve_loop_None: "approve_loop s code = None \<longleftrightarrow> (\<forall>x\<in>set s. user_code (snd x) \<noteq> code)"
  by (induction s code rule: approve_loop.induct) auto

lemma approve_loop_first:
  "\<forall>x\<in>set pre. user_code (snd x) \<noteq> code \<Longrightarrow> user_code d = code \<Longrightarrow>
   approve_loop (pre @ (k, d) # post) code = Some (pre @ (k, d\<lparr>status := Authorized\<rparr>) # post)"
  by (induction pre) auto

lemma approve_loop_keys: "approve_loop s code = Some s' \<Longrightarrow> map fst s' = map fst s"
  by (induction s code arbitrary: s' rule: approve_loop.induct) (auto split: if_splits)


lemma approve_loop_set:
  "approve_loop s code = Some s' \<Longrightarrow> x \<in> set s' \<Longrightarrow>
   x \<in> set s \<or> (\<exists>d. (fst x, d) \<in> set s \<and> snd x = d\<lparr>status := Authorized\<rparr>)"
proof (induction s code arbitrary: s' rule: approve_loop.induct)
  case (1 code)
  then show ?case by simp
next
  case (2 device_code data items code)
  show ?case
  proof (cases "user_code data = code")
    case True
    with 2 show ?thesis by auto
  next
    case False
    with 2(2) obtain t where t: "approve_loop items code = Some t" "s' = (device_code, data) # t"
      by auto
    with 2(3) have "x = (device_code, data) \<or> x \<in> set t" by auto
    then show ?thesis
    proof
      assume "x = (device_code, data)" then show ?thesis by simp
    next
      assume "x \<in> set t"
      from 2(1) [OF False t(1) this] show ?thesis by auto
    qed
  qed
qed

lemma approve_loop_inv:
  assumes "approve_loop s code = Some s'" and "store_inv s"
  shows "store_inv s'"
proof -
  have "distinct (map fst s')"
    using assms approve_loop_keys [OF assms(1)] by (simp add: store_inv_def)
  moreover have "status (snd x) \<noteq> Expired \<and> expires_in (snd x) = 600
        \<and> is_ascii (user_code (snd x))
        \<and> map upper_char (user_code (snd x)) = user_code (snd x)" if "x \<in> set s'" for x
    using approve_loop_set [OF assms(1) that] assms(2) by (auto simp: store_inv_def)
  ultimately show ?thesis by (simp add: store_inv_def)
qed

lemma approve_inv: "store_inv s \<Longrightarrow> store_inv (snd (approve up s arg))"
  by (auto simp: approve_def Let_def approve_loop_inv split: option.splits)

lemma device_start_store:
  "snd (device_start up s now u1 u2)
     = dict_set s (uuid_str u1)
         \<lparr>user_code = ''SWIFT-'' @ map upper_char (take 4 (uuid_hex u2)), status = Pending,
           created = now, expires_in = 600\<rparr>"
  using new_user_code [of up u2] by (simp add: device_start_def Let_def)

lemma device_start_inv:
  assumes "store_inv s"
  shows "store_inv (snd (device_start up s now u1 u2))"
proof -
  let ?v = "\<lparr>user_code = ''SWIFT-'' @ map upper_char (take 4 (uuid_hex u2)), status = Pending,
             created = now, expires_in = 600\<rparr>"
  have "distinct (map fst (dict_set s (uuid_str u1) ?v))"
    using assms by (simp add: store_inv_def distinct_dict_set)
  moreover have "status (snd x) \<noteq> Expired \<and> expires_in (snd x) = 600
        \<and> is_ascii (user_code (snd x))
        \<and> map upper_char (user_code (snd x)) = user_code (snd x)"
    if "x \<in> set (dict_set s (uuid_str u1) ?v)" for x
  proof -
    from that set_dict_set [of s "uuid_str u1" ?v]
    have "x = (uuid_str u1, ?v) \<or> x \<in> set s" by auto
    then show ?thesis
    proof
      assume "x = (uuid_str u1, ?v)"
      then show ?thesis
        using new_user_code_ascii [of u2] new_user_code_upper [of u2] by simp
    next
      assume "x \<in> set s"
      with assms show ?thesis by (simp add: store_inv_def)
    qed
  qed
  ultimately show ?thesis unfolding device_start_store by (simp add: store_inv_def)
qed

lemma device_status_store: "snd (device_status s now arg) = s"
  by (simp add: device_status_def split: option.splits)

lemma device_token_store: "snd (device_token s got u1 u2) = s"
  by (simp add: device_token_def Let_def split: sum.splits)

lemma handle_inv: "store_inv s \<Longrightarrow> store_inv (handle up s req)"
  by (cases req) (simp_all add: device_start_inv approve_inv device_status_store device_token_store)

lemma foldl_handle_inv: "store_inv s \<Longrightarrow> store_inv (foldl (handle up) s reqs)"
  by (induction reqs arbitrary: s) (simp_all add: handle_inv)

lemma run_inv: "store_inv (run up reqs)"
  unfolding run_def by (rule foldl_handle_inv) (simp add: store_inv_def)

lemma run_keys_distinct: "distinct (map fst (run up reqs))"
  using run_inv [of up reqs] by (simp add: store_inv_def)


lemma approve_found:
  "\<forall>x\<in>set pre. user_code (snd x) \<noteq> str_upper up c \<Longrightarrow> user_code d = str_upper up c \<Longrightarrow>
   approve up (pre @ (k, d) # post) (Some c)
     = (DeviceAuthorized (str_upper up c), pre @ (k, d\<lparr>status := Authorized\<rparr>) # post)"
  by (simp add: approve_def approve_loop_first)








section \<open>Concrete runs\<close>

lemmas eval_defs = run_def device_start_def approve_def device_status_def device_token_def Let_def
  uuid_str_def uuid_hex_def hex_digit_def str_upper_def is_ascii_def upper_char_def upt_rec
  uuid_a_def uuid_b_def uuid_c_def uuid_d_def long_s_code_def sample_upper_def

lemma example_uuids: "is_uuid4 uuid_a \<and> is_uuid4 uuid_b \<and> is_uuid4 uuid_c \<and> is_uuid4 uuid_d"
  by (simp add: is_uuid4_def uuid_a_def uuid_b_def uuid_c_def uuid_d_def)

lemma upper_examples:
  "str_upper sample_upper ''swift-abcd'' = ''SWIFT-ABCD''"
  "str_upper sample_upper ''Swift-Abcd'' = ''SWIFT-ABCD''"
  "str_upper sample_upper ''SWIFT-ABCD'' = ''SWIFT-ABCD''"
  "str_upper sample_upper ''swift-abce'' = ''SWIFT-ABCE''"
  "str_upper sample_upper ''UNKNOWN-CODE'' = ''UNKNOWN-CODE''"
  "str_upper sample_upper long_s_code = ''SWIFT-ABCD''"
  by (simp_all add: str_upper_def is_ascii_def upper_char_def long_s_code_def sample_upper_def)

lemma run_start:
  "run sample_upper [Start 0 uuid_a uuid_b] =
     [(''123e4567-e89b-42d3-a456-426614174000'',
       \<lparr>user_code = ''SWIFT-ABCD'', status = Pending, created = 0, expires_in = 600\<rparr>)]"
  by (simp add: eval_defs)

lemma run_start_approve:
  "run sample_upper [Start 0 uuid_a uuid_b, Approve (Some ''swift-abcd'')] =
     [(''123e4567-e89b-42d3-a456-426614174000'',
       \<lparr>user_code = ''SWIFT-ABCD'', status = Authorized, created = 0, expires_in = 600\<rparr>)]"
  by (simp add: eval_defs)

lemma run_start_start:
  "run sample_upper [Start 0 uuid_a uuid_b, Start 1 uuid_c uuid_d] =
     [(''123e4567-e89b-42d3-a456-426614174000'',
       \<lparr>user_code = ''SWIFT-ABCD'', status = Pending, created = 0, expires_in = 600\<rparr>),
      (''9f8b7c6d-5e4f-4a3b-8c2d-1e0f9a8b7c6d'',
       \<lparr>user_code = ''SWIFT-ABCD'', status = Pending, created = 1, expires_in = 600\<rparr>)]"
  by (simp add: eval_defs)

lemma run_start_approve_start:
  "run sample_upper [Start 0 uuid_a uuid_b, Approve (Some ''swift-abcd''), Start 5 uuid_a uuid_c] =
     [(''123e4567-e89b-42d3-a456-426614174000'',
       \<lparr>user_code = ''SWIFT-9F8B'', status = Pending, created = 5, expires_in = 600\<rparr>)]"
  by (simp add: eval_defs)

lemma uuid_str_a: "uuid_str uuid_a = ''123e4567-e89b-42d3-a456-426614174000''"
  by (simp add: eval_defs)

lemma uuid_str_c: "uuid_str uuid_c = ''9f8b7c6d-5e4f-4a3b-8c2d-1e0f9a8b7c6d''"
  by (simp add: eval_defs)

lemma uuid_hex_c: "uuid_hex uuid_c = ''9f8b7c6d5e4f4a3b8c2d1e0f9a8b7c6d''"
  by (simp add: eval_defs)

lemma uuid_hex_d: "uuid_hex uuid_d = ''abcd9999aaaa4bbb8ccc000000000001''"
  by (simp add: eval_defs)

section \<open>The claims\<close>

subsection \<open>C1: expiry in GetStatus\<close>

text \<open>
  C1, as amended. For every record stored after any sequence of requests,
  \<^verbatim>\<open>device_status\<close> answers \<^verbatim>\<open>expired\<close> exactly when the record's age
  \<open>now - created\<close> exceeds 600 seconds, whatever its stored status; when the record is
  found and its age does not exceed 600 the answer is the stored status; the store is
  left as it was. (The claim as written wants \<^verbatim>\<open>expired\<close> only for a stored
  \<^verbatim>\<open>pending\<close>: the source's age test does not look at the status.)
\<close>

theorem device_status_expiry:
  assumes "map_of (run up reqs) dc = Some d"
  shows "(fst (device_status (run up reqs) now (Some dc)) = Expired \<longleftrightarrow> now - created d > 600)
       \<and> (\<not> now - created d > 600 \<longrightarrow> fst (device_status (run up reqs) now (Some dc)) = status d)
       \<and> snd (device_status (run up reqs) now (Some dc)) = run up reqs"
proof -
  from assms have "(dc, d) \<in> set (run up reqs)" by (rule map_of_SomeD)
  with run_inv [of up reqs] have "status d \<noteq> Expired" "expires_in d = 600"
    by (auto simp: store_inv_def)
  with assms show ?thesis by (simp add: device_status_def)
qed

theorem device_status_expiry_witness:
  "map_of (run sample_upper [Start 0 uuid_a uuid_b]) ''123e4567-e89b-42d3-a456-426614174000''
     = Some \<lparr>user_code = ''SWIFT-ABCD'', status = Pending, created = 0, expires_in = 600\<rparr>
   \<and> fst (device_status (run sample_upper [Start 0 uuid_a uuid_b]) 600
            (Some ''123e4567-e89b-42d3-a456-426614174000'')) = Pending
   \<and> fst (device_status (run sample_upper [Start 0 uuid_a uuid_b]) 600.5
            (Some ''123e4567-e89b-42d3-a456-426614174000'')) = Expired"
proof -
  let ?d = "\<lparr>user_code = ''SWIFT-ABCD'', status = Pending, created = 0, expires_in = 600\<rparr>"
  have h: "map_of (run sample_upper [Start 0 uuid_a uuid_b])
             ''123e4567-e89b-42d3-a456-426614174000'' = Some ?d"
    by (simp add: run_start)
  from device_status_expiry [OF h, of 600] device_status_expiry [OF h, of "600.5"] h
  show ?thesis by simp
qed

text \<open>
  The claim as written fails: after \<^verbatim>\<open>device_start\<close> at time 0 and an approval, the
  stored status is \<^verbatim>\<open>authorized\<close>, and at time 601 the answer is \<^verbatim>\<open>expired\<close>.
\<close>

theorem device_status_expiry_counterexample:
  "map_of (run sample_upper [Start 0 uuid_a uuid_b, Approve (Some ''swift-abcd'')])
      ''123e4567-e89b-42d3-a456-426614174000''
     = Some \<lparr>user_code = ''SWIFT-ABCD'', status = Authorized, created = 0, expires_in = 600\<rparr>
   \<and> fst (device_status (run sample_upper [Start 0 uuid_a uuid_b, Approve (Some ''swift-abcd'')])
        601 (Some ''123e4567-e89b-42d3-a456-426614174000'')) = Expired"
  by (simp add: run_start_approve device_status_def)

subsection \<open>C2: when RedeemToken succeeds\<close>




subsection \<open>C3: RedeemToken does not consume\<close>

text \<open>
  C3. \<^verbatim>\<open>device_token\<close> leaves the store exactly as it was, whatever the request body.
  For a record with stored status \<^verbatim>\<open>authorized\<close> the call succeeds, a second call
  right after it succeeds too, and afterwards the record is still the same record,
  status \<^verbatim>\<open>authorized\<close> included (the source has no status \<^verbatim>\<open>consumed\<close>).
\<close>

theorem device_token_repeatable:
  "snd (device_token s got u1 u2) = s
   \<and> (map_of s dc = Some d \<and> status d = Authorized \<longrightarrow>
        fst (device_token s (JObj [(''device_code'', JStr dc)]) u1 u2)
          = Inr (200, Tokens (''access_'' @ uuid_hex u1) (''refresh_'' @ uuid_hex u2) 3600)
      \<and> fst (device_token (snd (device_token s (JObj [(''device_code'', JStr dc)]) u1 u2))
               (JObj [(''device_code'', JStr dc)]) u3 u4)
          = Inr (200, Tokens (''access_'' @ uuid_hex u3) (''refresh_'' @ uuid_hex u4) 3600)
      \<and> snd (device_token (snd (device_token s (JObj [(''device_code'', JStr dc)]) u1 u2))
               (JObj [(''device_code'', JStr dc)]) u3 u4) = s
      \<and> map_of (snd (device_token (snd (device_token s (JObj [(''device_code'', JStr dc)]) u1 u2))
               (JObj [(''device_code'', JStr dc)]) u3 u4)) dc = Some d)"
  by (simp add: device_token_store) (simp add: device_token_def)

theorem device_token_repeatable_witness:
  "map_of (run sample_upper [Start 0 uuid_a uuid_b, Approve (Some ''swift-abcd'')])
      ''123e4567-e89b-42d3-a456-426614174000''
     = Some \<lparr>user_code = ''SWIFT-ABCD'', status = Authorized, created = 0, expires_in = 600\<rparr>
   \<and> fst (device_token (run sample_upper [Start 0 uuid_a uuid_b, Approve (Some ''swift-abcd'')])
         (JObj [(''device_code'', JStr ''123e4567-e89b-42d3-a456-426614174000'')]) uuid_c uuid_d)
       = Inr (200, Tokens (''access_'' @ uuid_hex uuid_c) (''refresh_'' @ uuid_hex uuid_d) 3600)
   \<and> fst (device_token
         (snd (device_token (run sample_upper [Start 0 uuid_a uuid_b, Approve (Some ''swift-abcd'')])
                (JObj [(''device_code'', JStr ''123e4567-e89b-42d3-a456-426614174000'')])
                uuid_c uuid_d))
         (JObj [(''device_code'', JStr ''123e4567-e89b-42d3-a456-426614174000'')]) uuid_d uuid_c)
       = Inr (200, Tokens (''access_'' @ uuid_hex uuid_d) (''refresh_'' @ uuid_hex uuid_c) 3600)
   \<and> snd (device_token
         (snd (device_token (run sample_upper [Start 0 uuid_a uuid_b, Approve (Some ''swift-abcd'')])
                (JObj [(''device_code'', JStr ''123e4567-e89b-42d3-a456-426614174000'')])
                uuid_c uuid_d))
         (JObj [(''device_code'', JStr ''123e4567-e89b-42d3-a456-426614174000'')]) uuid_d uuid_c)
       = run sample_upper [Start 0 uuid_a uuid_b, Approve (Some ''swift-abcd'')]"
proof -
  let ?k = "''123e4567-e89b-42d3-a456-426614174000''"
  let ?d = "\<lparr>user_code = ''SWIFT-ABCD'', status = Authorized, created = 0, expires_in = 600\<rparr>"
  let ?s2 = "run sample_upper [Start 0 uuid_a uuid_b, Approve (Some ''swift-abcd'')]"
  have h: "map_of ?s2 ?k = Some ?d \<and> status ?d = Authorized"
    by (simp add: run_start_approve)
  from device_token_repeatable
    [of ?s2 "JObj [(''device_code'', JStr ?k)]" uuid_c uuid_d ?k ?d uuid_d uuid_c] h
  show ?thesis by blast
qed

subsection \<open>C4: what Approve matches and what it changes\<close>




subsection \<open>C5: GetStatus after a successful Approve\<close>

text \<open>
  C5, as amended. After an approval that matched, \<^verbatim>\<open>device_status\<close> for the device
  code of the first record (in insertion order) that carries the user code answers
  \<^verbatim>\<open>authorized\<close> as long as the record's age does not exceed 600 seconds, and
  \<^verbatim>\<open>expired\<close> once it does.
\<close>

theorem approve_then_status:
  assumes "run up reqs = pre @ (k, d) # post"
    and "\<forall>x\<in>set pre. user_code (snd x) \<noteq> str_upper up c"
    and "user_code d = str_upper up c"
  shows "fst (approve up (run up reqs) (Some c)) = DeviceAuthorized (str_upper up c)
       \<and> fst (device_status (snd (approve up (run up reqs) (Some c))) now (Some k))
           = (if now - created d > 600 then Expired else Authorized)"
proof -
  let ?d' = "d\<lparr>status := Authorized\<rparr>"
  have ap: "approve up (run up reqs) (Some c)
              = (DeviceAuthorized (str_upper up c), pre @ (k, ?d') # post)"
    unfolding assms(1) by (rule approve_found [OF assms(2,3)])
  have "distinct (map fst (pre @ (k, d) # post))"
    using run_keys_distinct [of up reqs] by (simp only: assms(1))
  then have "k \<notin> fst ` set pre" by auto
  then have "map_of pre k = None" by (simp add: map_of_eq_None_iff)
  then have look: "map_of (pre @ (k, ?d') # post) k = Some ?d'"
    by (simp add: map_add_def)
  have "(k, d) \<in> set (run up reqs)" by (simp add: assms(1))
  with run_inv [of up reqs] have "expires_in d = 600" by (auto simp: store_inv_def)
  with ap look show ?thesis by (simp add: device_status_def)
qed

theorem approve_then_status_witness:
  "fst (approve sample_upper (run sample_upper [Start 0 uuid_a uuid_b]) (Some ''swift-abcd''))
     = DeviceAuthorized ''SWIFT-ABCD''
   \<and> fst (device_status
        (snd (approve sample_upper (run sample_upper [Start 0 uuid_a uuid_b]) (Some ''swift-abcd'')))
        600 (Some ''123e4567-e89b-42d3-a456-426614174000'')) = Authorized"
proof -
  let ?k = "''123e4567-e89b-42d3-a456-426614174000''"
  let ?d = "\<lparr>user_code = ''SWIFT-ABCD'', status = Pending, created = 0, expires_in = 600\<rparr>"
  note up = upper_examples
  have h1: "run sample_upper [Start 0 uuid_a uuid_b] = [] @ (?k, ?d) # []" by (simp add: run_start)
  have h2: "\<forall>x\<in>set []. user_code (snd x) \<noteq> str_upper sample_upper ''swift-abcd''" by simp
  have h3: "user_code ?d = str_upper sample_upper ''swift-abcd''" by (simp add: up)
  from approve_then_status [OF h1 h2 h3, of 600] show ?thesis by (simp add: up)
qed

text \<open>
  The claim as written fails in two ways. An approved record polled at age 601 answers
  \<^verbatim>\<open>expired\<close>. And of two records with the same user code only the first is
  approved: the second still answers \<^verbatim>\<open>pending\<close> after the approval succeeded.
\<close>

theorem approve_then_status_counterexample:
  "fst (approve sample_upper (run sample_upper [Start 0 uuid_a uuid_b]) (Some ''SWIFT-ABCD''))
     = DeviceAuthorized ''SWIFT-ABCD''
   \<and> fst (device_status
        (snd (approve sample_upper (run sample_upper [Start 0 uuid_a uuid_b]) (Some ''SWIFT-ABCD'')))
        601 (Some ''123e4567-e89b-42d3-a456-426614174000'')) = Expired
   \<and> map_of (run sample_upper [Start 0 uuid_a uuid_b, Start 1 uuid_c uuid_d])
        ''9f8b7c6d-5e4f-4a3b-8c2d-1e0f9a8b7c6d''
       = Some \<lparr>user_code = ''SWIFT-ABCD'', status = Pending, created = 1, expires_in = 600\<rparr>
   \<and> fst (approve sample_upper (run sample_upper [Start 0 uuid_a uuid_b, Start 1 uuid_c uuid_d])
            (Some ''SWIFT-ABCD''))
       = DeviceAuthorized ''SWIFT-ABCD''
   \<and> fst (device_status
        (snd (approve sample_upper (run sample_upper [Start 0 uuid_a uuid_b, Start 1 uuid_c uuid_d])
               (Some ''SWIFT-ABCD''))) 2
        (Some ''9f8b7c6d-5e4f-4a3b-8c2d-1e0f9a8b7c6d'')) = Pending"
  by (simp add: run_start run_start_start approve_def device_status_def Let_def upper_examples)

subsection \<open>C6: StartPairing\<close>

text \<open>
  C6, as amended. \<^verbatim>\<open>device_start\<close> has no failing branch. Its response carries the
  device code \<^verbatim>\<open>str(uuid4())\<close>, a user code that is \<^verbatim>\<open>SWIFT-\<close> followed by four
  characters, each an upper-case letter or a digit, \<^verbatim>\<open>expires_in = 600\<close> and
  \<^verbatim>\<open>interval = 5\<close>. Afterwards the store holds, under the device code, a record with
  that user code, status \<^verbatim>\<open>pending\<close>, \<^verbatim>\<open>created = now\<close> and \<^verbatim>\<open>expires_in = 600\<close>,
  and under every other device code what it held before. When the device code was not
  a key, this is exactly one new record, added at the end; when it was, the record
  stored under it is replaced and no record is added.
\<close>

theorem device_start_stores:
  "r_device_code (fst (device_start up s now u1 u2)) = uuid_str u1
   \<and> take 6 (r_user_code (fst (device_start up s now u1 u2))) = ''SWIFT-''
   \<and> length (r_user_code (fst (device_start up s now u1 u2))) = 10
   \<and> list_all is_upper_alnum (drop 6 (r_user_code (fst (device_start up s now u1 u2))))
   \<and> r_expires_in (fst (device_start up s now u1 u2)) = 600
   \<and> r_interval (fst (device_start up s now u1 u2)) = 5
   \<and> map_of (snd (device_start up s now u1 u2))
       = (map_of s)(uuid_str u1 \<mapsto>
           \<lparr>user_code = r_user_code (fst (device_start up s now u1 u2)), status = Pending,
             created = now, expires_in = 600\<rparr>)
   \<and> (\<not> dict_contains s (uuid_str u1) \<longrightarrow>
        snd (device_start up s now u1 u2)
          = s @ [(uuid_str u1,
                  \<lparr>user_code = r_user_code (fst (device_start up s now u1 u2)), status = Pending,
                    created = now, expires_in = 600\<rparr>)])
   \<and> (dict_contains s (uuid_str u1) \<longrightarrow>
        map fst (snd (device_start up s now u1 u2)) = map fst s)"
proof -
  let ?code = "''SWIFT-'' @ map upper_char (take 4 (uuid_hex u2))"
  have resp: "fst (device_start up s now u1 u2)
      = \<lparr>r_device_code = uuid_str u1, r_user_code = ?code,
         r_verification_uri = ''http://106.54.188.236:8080/console'',
         r_expires_in = 600, r_interval = 5\<rparr>"
    using new_user_code [of up u2] by (simp add: device_start_def Let_def)
  have alnum: "list_all is_upper_alnum (map upper_char (take 4 (uuid_hex u2)))"
    using uuid_hex_alnum [of u2]
    by (simp add: list_all_iff) (meson in_set_takeD)
  have len: "length (map upper_char (take 4 (uuid_hex u2))) = 4"
    by (simp add: length_uuid_hex)
  show ?thesis
    unfolding resp device_start_store
    using alnum len
    by (simp add: map_of_dict_set dict_set_fresh dict_set_present dict_contains_def)
qed

theorem device_start_stores_witness:
  "\<not> dict_contains (run sample_upper [Start 0 uuid_a uuid_b]) (uuid_str uuid_c)
   \<and> fst (device_start sample_upper (run sample_upper [Start 0 uuid_a uuid_b]) 1 uuid_c uuid_d)
       = \<lparr>r_device_code = ''9f8b7c6d-5e4f-4a3b-8c2d-1e0f9a8b7c6d'', r_user_code = ''SWIFT-ABCD'',
          r_verification_uri = ''http://106.54.188.236:8080/console'',
          r_expires_in = 600, r_interval = 5\<rparr>
   \<and> snd (device_start sample_upper (run sample_upper [Start 0 uuid_a uuid_b]) 1 uuid_c uuid_d)
       = run sample_upper [Start 0 uuid_a uuid_b]
         @ [(uuid_str uuid_c,
             \<lparr>user_code = r_user_code (fst (device_start sample_upper
                              (run sample_upper [Start 0 uuid_a uuid_b]) 1 uuid_c uuid_d)),
               status = Pending, created = 1, expires_in = 600\<rparr>)]
   \<and> dict_contains (run sample_upper [Start 0 uuid_a uuid_b]) (uuid_str uuid_a)
   \<and> map fst (snd (device_start sample_upper (run sample_upper [Start 0 uuid_a uuid_b]) 5
                     uuid_a uuid_c))
       = map fst (run sample_upper [Start 0 uuid_a uuid_b])"
proof -
  let ?s1 = "run sample_upper [Start 0 uuid_a uuid_b]"
  have fresh: "\<not> dict_contains ?s1 (uuid_str uuid_c)"
    by (simp add: run_start dict_contains_def uuid_str_c)
  have old: "dict_contains ?s1 (uuid_str uuid_a)"
    by (simp add: run_start dict_contains_def uuid_str_a)
  have resp: "fst (device_start sample_upper ?s1 1 uuid_c uuid_d)
       = \<lparr>r_device_code = ''9f8b7c6d-5e4f-4a3b-8c2d-1e0f9a8b7c6d'', r_user_code = ''SWIFT-ABCD'',
          r_verification_uri = ''http://106.54.188.236:8080/console'',
          r_expires_in = 600, r_interval = 5\<rparr>"
    by (simp add: device_start_def Let_def uuid_str_c uuid_hex_d str_upper_def is_ascii_def
          upper_char_def)
  from device_start_stores [of sample_upper ?s1 1 uuid_c uuid_d]
       device_start_stores [of sample_upper ?s1 5 uuid_a uuid_c] fresh old resp
  show ?thesis by blast
qed

text \<open>
  The claim as written fails: a \<^verbatim>\<open>device_start\<close> that draws a device code already
  stored adds no record. Here it replaces an authorized record by a pending one.
\<close>

theorem device_start_stores_counterexample:
  "is_uuid4 uuid_a
   \<and> run sample_upper [Start 0 uuid_a uuid_b, Approve (Some ''swift-abcd'')]
       = [(''123e4567-e89b-42d3-a456-426614174000'',
           \<lparr>user_code = ''SWIFT-ABCD'', status = Authorized, created = 0, expires_in = 600\<rparr>)]
   \<and> snd (device_start sample_upper
            (run sample_upper [Start 0 uuid_a uuid_b, Approve (Some ''swift-abcd'')])
            5 uuid_a uuid_c)
       = [(''123e4567-e89b-42d3-a456-426614174000'',
           \<lparr>user_code = ''SWIFT-9F8B'', status = Pending, created = 5, expires_in = 600\<rparr>)]
   \<and> length (snd (device_start sample_upper
            (run sample_upper [Start 0 uuid_a uuid_b, Approve (Some ''swift-abcd'')])
            5 uuid_a uuid_c))
       = length (run sample_upper [Start 0 uuid_a uuid_b, Approve (Some ''swift-abcd'')])"
  by (simp add: example_uuids run_start_approve device_start_def Let_def uuid_str_a uuid_hex_c
        str_upper_def is_ascii_def upper_char_def)

subsection \<open>C7: GetStatus of an unknown device code\<close>

text \<open>
  C7. For a device code that is not a key of the store, and for a request without the
  parameter, \<^verbatim>\<open>device_status\<close> answers \<^verbatim>\<open>pending\<close>, not an error, and leaves the
  store as it was.
\<close>

theorem device_status_unknown:
  "device_status s now None = (Pending, s)
   \<and> (\<not> dict_contains s dc \<longrightarrow> device_status s now (Some dc) = (Pending, s))"
  by (simp add: device_status_def dict_contains_def map_of_eq_None_iff [THEN iffD2])

theorem device_status_unknown_witness:
  "\<not> dict_contains (run sample_upper [Start 0 uuid_a uuid_b]) ''no-such-code''
   \<and> device_status (run sample_upper [Start 0 uuid_a uuid_b]) 5 (Some ''no-such-code'')
       = (Pending, run sample_upper [Start 0 uuid_a uuid_b])"
proof -
  have h: "\<not> dict_contains (run sample_upper [Start 0 uuid_a uuid_b]) ''no-such-code''"
    by (simp add: run_start dict_contains_def)
  from device_status_unknown [of "run sample_upper [Start 0 uuid_a uuid_b]" 5 "''no-such-code''"] h
  show ?thesis by blast
qed

subsection \<open>C8: uniqueness of user codes\<close>




subsection \<open>C9: Approve of an unknown code\<close>

text \<open>
  C9. When no stored record's user code equals the upper-cased submitted code,
  \<^verbatim>\<open>approve\<close> shows the page "Code Not Found" and the store afterwards is the store
  before: no record is changed.
\<close>

theorem approve_unknown:
  "\<forall>x\<in>set s. user_code (snd x) \<noteq> str_upper up c \<Longrightarrow>
   approve up s (Some c) = (CodeNotFound (str_upper up c), s)"
  using approve_loop_None [of s "str_upper up c"] by (simp add: approve_def)

theorem approve_unknown_witness:
  "user_codes (run sample_upper [Start 0 uuid_a uuid_b, Start 1 uuid_c uuid_d])
     = [''SWIFT-ABCD'', ''SWIFT-ABCD'']
   \<and> approve sample_upper (run sample_upper [Start 0 uuid_a uuid_b, Start 1 uuid_c uuid_d])
        (Some ''UNKNOWN-CODE'')
       = (CodeNotFound ''UNKNOWN-CODE'',
          run sample_upper [Start 0 uuid_a uuid_b, Start 1 uuid_c uuid_d])"
proof -
  let ?s = "run sample_upper [Start 0 uuid_a uuid_b, Start 1 uuid_c uuid_d]"
  note up = upper_examples
  have h: "\<forall>x\<in>set ?s. user_code (snd x) \<noteq> str_upper sample_upper ''UNKNOWN-CODE''"
    by (simp add: run_start_start up)
  have u: "user_codes ?s = [''SWIFT-ABCD'', ''SWIFT-ABCD'']"
    by (simp add: run_start_start user_codes_def)
  from approve_unknown [OF h] u show ?thesis by (simp only: up simp_thms)
qed

subsection \<open>C10: Approve with a duplicated user code\<close>

text \<open>
  C10. When two stored records carry the submitted user code, \<^verbatim>\<open>approve\<close> sets the
  status of the first of them in insertion order to \<^verbatim>\<open>authorized\<close> and leaves the
  later one, like every other record, exactly as it was.
\<close>

theorem approve_first_match_only:
  assumes "s = pre @ (k1, d1) # mid @ (k2, d2) # post"
    and "\<forall>x\<in>set pre. user_code (snd x) \<noteq> str_upper up c"
    and "user_code d1 = str_upper up c"
    and "user_code d2 = str_upper up c"
  shows "snd (approve up s (Some c))
           = pre @ (k1, d1\<lparr>status := Authorized\<rparr>) # mid @ (k2, d2) # post"
  unfolding assms(1) using approve_loop_first [OF assms(2,3), of k1 "mid @ (k2, d2) # post"]
  by (simp add: approve_def)

theorem approve_first_match_only_witness:
  "snd (approve sample_upper (run sample_upper [Start 0 uuid_a uuid_b, Start 1 uuid_c uuid_d])
          (Some ''swift-abcd''))
     = [(''123e4567-e89b-42d3-a456-426614174000'',
         \<lparr>user_code = ''SWIFT-ABCD'', status = Authorized, created = 0, expires_in = 600\<rparr>),
        (''9f8b7c6d-5e4f-4a3b-8c2d-1e0f9a8b7c6d'',
         \<lparr>user_code = ''SWIFT-ABCD'', status = Pending, created = 1, expires_in = 600\<rparr>)]"
proof -
  let ?k1 = "''123e4567-e89b-42d3-a456-426614174000''"
  let ?k2 = "''9f8b7c6d-5e4f-4a3b-8c2d-1e0f9a8b7c6d''"
  let ?d1 = "\<lparr>user_code = ''SWIFT-ABCD'', status = Pending, created = 0, expires_in = 600\<rparr>"
  let ?d2 = "\<lparr>user_code = ''SWIFT-ABCD'', status = Pending, created = 1, expires_in = 600\<rparr>"
  note up = upper_examples
  have h1: "run sample_upper [Start 0 uuid_a uuid_b, Start 1 uuid_c uuid_d]
              = [] @ (?k1, ?d1) # [] @ (?k2, ?d2) # []"
    by (simp add: run_start_start)
  have h2: "\<forall>x\<in>set []. user_code (snd x) \<noteq> str_upper sample_upper ''swift-abcd''" by simp
  have h3: "user_code ?d1 = str_upper sample_upper ''swift-abcd''" by (simp add: up)
  have h4: "user_code ?d2 = str_upper sample_upper ''swift-abcd''" by (simp add: up)
  from approve_first_match_only [OF h1 h2 h3 h4] show ?thesis by simp
qed

end
